theory Spec2Isabelle
  imports Complex_Main
begin

section \<open>The cube mosaic of \<open>script.js\<close>\<close>

text \<open>
  \<open>App3.init\<close> builds a scene: two lights, then one box mesh per grid cell. Each mesh starts
  with the material colour of \<open>MATERIAL_PARAM\<close>, runs through a chain of
  \<open>if( col === c && row === r ) { color = new THREE.Color(x); }\<close> statements, is positioned
  and added to the scene. Loop counters are JavaScript integers (\<open>int\<close>); colours are the
  packed hexadecimal values handed to \<open>THREE.Color\<close> (\<open>nat\<close>); coordinates in space are
  modelled as exact rationals (with the program's constants every value is a multiple of
  one half, which a double represents exactly).
\<close>

subsection \<open>Constants\<close>

definition MATERIAL_PARAM_color :: nat where
  "MATERIAL_PARAM_color = 0xffffff"

definition BOX_ROW :: int where
  "BOX_ROW = 25"

definition BOX_COL :: int where
  "BOX_COL = 20"

definition BOX_SIZE :: rat where
  "BOX_SIZE = 1"

subsection \<open>The colour override chain\<close>

text \<open>
  One entry per \<open>if\<close> statement of the chain, in the order of the source and with the
  components in the order the condition names them: \<open>(col, row, colour)\<close>. The chain is
  split into the seven blocks that the source separates by a colour comment.
\<close>

type_synonym override = "int \<times> int \<times> nat"

definition overrides_000000 :: "override list" where
  "overrides_000000 = [
   (5, 1, 0x000000), (13, 1, 0x000000), (4, 2, 0x000000), (6, 2, 0x000000),
   (12, 2, 0x000000), (14, 2, 0x000000), (4, 3, 0x000000), (7, 3, 0x000000),
   (12, 3, 0x000000), (14, 3, 0x000000), (4, 4, 0x000000), (7, 4, 0x000000),
   (11, 4, 0x000000), (14, 4, 0x000000), (4, 5, 0x000000), (8, 5, 0x000000),
   (11, 5, 0x000000), (15, 5, 0x000000), (4, 6, 0x000000), (8, 6, 0x000000),
   (10, 6, 0x000000), (15, 6, 0x000000), (5, 7, 0x000000), (9, 7, 0x000000),
   (15, 7, 0x000000), (5, 8, 0x000000), (15, 8, 0x000000), (6, 9, 0x000000),
   (16, 9, 0x000000), (5, 10, 0x000000), (17, 10, 0x000000), (4, 11, 0x000000),
   (18, 11, 0x000000), (4, 12, 0x000000), (19, 12, 0x000000), (4, 13, 0x000000),
   (20, 13, 0x000000), (5, 14, 0x000000), (10, 14, 0x000000), (21, 14, 0x000000),
   (5, 15, 0x000000), (21, 15, 0x000000), (4, 16, 0x000000), (15, 16, 0x000000),
   (22, 16, 0x000000), (4, 17, 0x000000), (14, 17, 0x000000), (16, 17, 0x000000),
   (22, 17, 0x000000), (5, 18, 0x000000), (6, 18, 0x000000), (7, 18, 0x000000),
   (13, 18, 0x000000), (16, 18, 0x000000), (19, 18, 0x000000), (22, 18, 0x000000),
   (8, 19, 0x000000), (14, 19, 0x000000), (17, 19, 0x000000), (18, 19, 0x000000),
   (20, 19, 0x000000), (21, 19, 0x000000)]"

definition overrides_69889d :: "override list" where
  "overrides_69889d = [
   (5, 2, 0x69889d), (5, 3, 0x69889d), (6, 3, 0x69889d), (5, 4, 0x69889d),
   (6, 4, 0x69889d), (6, 5, 0x69889d), (7, 5, 0x69889d), (7, 6, 0x69889d),
   (7, 7, 0x69889d), (8, 7, 0x69889d), (15, 10, 0x69889d), (10, 13, 0x69889d),
   (16, 16, 0x69889d), (11, 18, 0x69889d)]"

definition overrides_6eb2dd :: "override list" where
  "overrides_6eb2dd = [
   (13, 2, 0x6eb2dd), (13, 3, 0x6eb2dd), (12, 4, 0x6eb2dd), (13, 4, 0x6eb2dd),
   (12, 5, 0x6eb2dd), (13, 5, 0x6eb2dd), (14, 5, 0x6eb2dd), (11, 6, 0x6eb2dd),
   (13, 6, 0x6eb2dd), (14, 6, 0x6eb2dd), (11, 7, 0x6eb2dd), (14, 7, 0x6eb2dd),
   (11, 8, 0x6eb2dd), (14, 8, 0x6eb2dd), (7, 9, 0x6eb2dd), (10, 9, 0x6eb2dd),
   (14, 9, 0x6eb2dd), (15, 9, 0x6eb2dd), (6, 10, 0x6eb2dd), (10, 10, 0x6eb2dd),
   (11, 10, 0x6eb2dd), (12, 10, 0x6eb2dd), (14, 10, 0x6eb2dd), (5, 11, 0x6eb2dd),
   (6, 11, 0x6eb2dd), (9, 11, 0x6eb2dd), (10, 11, 0x6eb2dd), (11, 11, 0x6eb2dd),
   (12, 11, 0x6eb2dd), (13, 11, 0x6eb2dd), (5, 12, 0x6eb2dd), (6, 12, 0x6eb2dd),
   (9, 12, 0x6eb2dd), (10, 12, 0x6eb2dd), (11, 12, 0x6eb2dd), (6, 13, 0x6eb2dd),
   (9, 13, 0x6eb2dd), (15, 15, 0x6eb2dd), (13, 16, 0x6eb2dd), (14, 16, 0x6eb2dd),
   (9, 17, 0x6eb2dd), (10, 17, 0x6eb2dd), (11, 17, 0x6eb2dd), (12, 17, 0x6eb2dd),
   (8, 18, 0x6eb2dd), (9, 18, 0x6eb2dd), (10, 18, 0x6eb2dd)]"

definition overrides_424040 :: "override list" where
  "overrides_424040 = [
   (5, 5, 0x424040), (5, 6, 0x424040), (6, 6, 0x424040), (12, 6, 0x424040),
   (6, 7, 0x424040), (10, 7, 0x424040), (12, 7, 0x424040), (6, 8, 0x424040),
   (7, 8, 0x424040), (8, 8, 0x424040), (12, 8, 0x424040), (13, 8, 0x424040),
   (11, 9, 0x424040), (13, 9, 0x424040), (13, 10, 0x424040), (16, 10, 0x424040),
   (16, 11, 0x424040), (12, 12, 0x424040), (13, 12, 0x424040), (17, 12, 0x424040),
   (11, 13, 0x424040), (17, 13, 0x424040), (17, 14, 0x424040), (6, 15, 0x424040),
   (16, 15, 0x424040), (18, 15, 0x424040), (18, 16, 0x424040), (5, 17, 0x424040),
   (13, 17, 0x424040), (18, 17, 0x424040), (12, 18, 0x424040), (9, 19, 0x424040),
   (10, 19, 0x424040), (13, 19, 0x424040)]"

definition overrides_5c6060 :: "override list" where
  "overrides_5c6060 = [
   (13, 7, 0x5c6060), (9, 8, 0x5c6060), (10, 8, 0x5c6060), (8, 9, 0x5c6060),
   (9, 9, 0x5c6060), (12, 9, 0x5c6060), (7, 10, 0x5c6060), (8, 10, 0x5c6060),
   (9, 10, 0x5c6060), (7, 11, 0x5c6060), (8, 11, 0x5c6060), (14, 11, 0x5c6060),
   (15, 11, 0x5c6060), (17, 11, 0x5c6060), (7, 12, 0x5c6060), (8, 12, 0x5c6060),
   (14, 12, 0x5c6060), (15, 12, 0x5c6060), (16, 12, 0x5c6060), (18, 12, 0x5c6060),
   (5, 13, 0x5c6060), (7, 13, 0x5c6060), (8, 13, 0x5c6060), (13, 13, 0x5c6060),
   (14, 13, 0x5c6060), (15, 13, 0x5c6060), (16, 13, 0x5c6060), (18, 13, 0x5c6060),
   (19, 13, 0x5c6060), (6, 14, 0x5c6060), (7, 14, 0x5c6060), (8, 14, 0x5c6060),
   (9, 14, 0x5c6060), (13, 14, 0x5c6060), (14, 14, 0x5c6060), (15, 14, 0x5c6060),
   (16, 14, 0x5c6060), (18, 14, 0x5c6060), (19, 14, 0x5c6060), (20, 14, 0x5c6060),
   (7, 15, 0x5c6060), (8, 15, 0x5c6060), (9, 15, 0x5c6060), (12, 15, 0x5c6060),
   (13, 15, 0x5c6060), (14, 15, 0x5c6060), (17, 15, 0x5c6060), (19, 15, 0x5c6060),
   (20, 15, 0x5c6060), (5, 16, 0x5c6060), (6, 16, 0x5c6060), (7, 16, 0x5c6060),
   (8, 16, 0x5c6060), (9, 16, 0x5c6060), (10, 16, 0x5c6060), (11, 16, 0x5c6060),
   (12, 16, 0x5c6060), (17, 16, 0x5c6060), (19, 16, 0x5c6060), (20, 16, 0x5c6060),
   (21, 16, 0x5c6060), (6, 17, 0x5c6060), (7, 17, 0x5c6060), (8, 17, 0x5c6060),
   (17, 17, 0x5c6060), (19, 17, 0x5c6060), (20, 17, 0x5c6060), (21, 17, 0x5c6060),
   (17, 18, 0x5c6060), (18, 18, 0x5c6060), (20, 18, 0x5c6060), (21, 18, 0x5c6060),
   (11, 19, 0x5c6060), (12, 19, 0x5c6060)]"

definition overrides_ffffff :: "override list" where
  "overrides_ffffff = [
   (12, 13, 0xffffff), (12, 14, 0xffffff)]"

definition overrides_ff5552 :: "override list" where
  "overrides_ff5552 = [
   (11, 14, 0xff5552), (10, 15, 0xff5552), (11, 15, 0xff5552)]"

definition colorOverrides :: "override list" where
  "colorOverrides = overrides_000000 @ overrides_69889d @ overrides_6eb2dd @
     overrides_424040 @ overrides_5c6060 @ overrides_ffffff @ overrides_ff5552"

text \<open>
  One \<open>if\<close> statement: the working colour is replaced when both comparisons hold, and kept
  otherwise.
\<close>

definition applyOverride :: "int \<Rightarrow> int \<Rightarrow> override \<Rightarrow> nat \<Rightarrow> nat" where
  "applyOverride row col e cur =
     (case e of (c, r, colour) \<Rightarrow> if col = c \<and> row = r then colour else cur)"

text \<open>The statements run one after the other on the mutable colour of the mesh.\<close>

definition applyOverrides :: "override list \<Rightarrow> int \<Rightarrow> int \<Rightarrow> nat \<Rightarrow> nat" where
  "applyOverrides tab row col base = fold (applyOverride row col) tab base"

definition resolveColor :: "int \<Rightarrow> int \<Rightarrow> nat" where
  "resolveColor row col = applyOverrides colorOverrides row col MATERIAL_PARAM_color"

text \<open>
  The entries of the chain that test for a given cell, in the order of the source.
\<close>

definition entriesFor :: "int \<Rightarrow> int \<Rightarrow> override list" where
  "entriesFor row col = filter (\<lambda>e. case e of (c, r, colour) \<Rightarrow> col = c \<and> row = r) colorOverrides"

subsection \<open>Scene objects\<close>

text \<open>
  A mesh carries the colour of its own material and its position; the geometry is the same
  cube for every mesh. The scene is the list of the objects added to it, in the order of
  the \<open>add\<close> calls.
\<close>

record mesh =
  color :: nat
  pos_x :: rat
  pos_y :: rat
  pos_z :: rat

datatype object3d =
    DirectionalLight nat rat rat rat rat
  | AmbientLight nat rat
  | Mesh mesh

type_synonym scene = "object3d list"

subsection \<open>The grid loops of \<open>init\<close>\<close>

text \<open>
  The constants of the source are parameters here, under their own names: \<open>box_row\<close> bounds
  the inner loop over \<open>col\<close> and \<open>box_col\<close> bounds the outer loop over \<open>row\<close>.
\<close>

definition gridWidth :: "int \<Rightarrow> rat \<Rightarrow> rat" where
  "gridWidth box_row box_size = of_int box_row * box_size"

definition gridHeight :: "int \<Rightarrow> rat \<Rightarrow> rat" where
  "gridHeight box_col box_size = of_int box_col * box_size"

definition offsetX :: "int \<Rightarrow> rat \<Rightarrow> rat" where
  "offsetX box_row box_size = - gridWidth box_row box_size / 2"

definition offsetY :: "int \<Rightarrow> rat \<Rightarrow> rat" where
  "offsetY box_col box_size = - gridHeight box_col box_size / 2"

text \<open>
  The loop body: a mesh with the base colour, the override chain, then
  \<open>position.set(col * BOX_SIZE + offsetX, -row * BOX_SIZE - offsetY, 0)\<close>.
\<close>

definition makeBox :: "int \<Rightarrow> int \<Rightarrow> rat \<Rightarrow> int \<Rightarrow> int \<Rightarrow> mesh" where
  "makeBox box_row box_col box_size row col =
     \<lparr> color = resolveColor row col,
       pos_x = of_int col * box_size + offsetX box_row box_size,
       pos_y = - of_int row * box_size - offsetY box_col box_size,
       pos_z = 0 \<rparr>"

text \<open>\<open>for (let col = 1; col < BOX_ROW; col++) { ...; this.scene.add(this.box); }\<close>\<close>

function colLoop :: "int \<Rightarrow> int \<Rightarrow> rat \<Rightarrow> int \<Rightarrow> int \<Rightarrow> scene \<Rightarrow> scene" where
  "colLoop box_row box_col box_size row col scene =
     (if col < box_row
      then colLoop box_row box_col box_size row (col + 1)
             (scene @ [Mesh (makeBox box_row box_col box_size row col)])
      else scene)"
  by pat_completeness auto
termination
  by (relation "measure (\<lambda>(box_row, box_col, box_size, row, col, scene). nat (box_row - col))")
    auto

text \<open>\<open>for (let row = 1; row < BOX_COL; row++) { for (let col = 1; ...) ... }\<close>\<close>

function rowLoop :: "int \<Rightarrow> int \<Rightarrow> rat \<Rightarrow> int \<Rightarrow> scene \<Rightarrow> scene" where
  "rowLoop box_row box_col box_size row scene =
     (if row < box_col
      then rowLoop box_row box_col box_size (row + 1)
             (colLoop box_row box_col box_size row 1 scene)
      else scene)"
  by pat_completeness auto
termination
  by (relation "measure (\<lambda>(box_row, box_col, box_size, row, scene). nat (box_col - row))")
    auto

text \<open>
  The grid builder: \<open>rows\<close> is the bound of the row loop (\<open>BOX_COL\<close> in the source) and
  \<open>cols\<close> the bound of the column loop (\<open>BOX_ROW\<close> in the source).
\<close>

definition buildGrid :: "int \<Rightarrow> int \<Rightarrow> rat \<Rightarrow> scene \<Rightarrow> scene" where
  "buildGrid rows cols cellSize scene = rowLoop cols rows cellSize 1 scene"

text \<open>The scene of \<open>init\<close>: the two lights, then the grid with the constants of the source.\<close>

definition init_scene :: scene where
  "init_scene = buildGrid BOX_COL BOX_ROW BOX_SIZE
     [DirectionalLight 0xffffff 1 1 1 1, AmbientLight 0xffffff (1 / 5)]"

text \<open>The cells visited by the two loops, in the order of the visits, as \<open>(row, col)\<close>.\<close>

definition gridCoords :: "int \<Rightarrow> int \<Rightarrow> (int \<times> int) list" where
  "gridCoords rows cols =
     concat (map (\<lambda>row. map (\<lambda>col. (row, col)) [1..cols - 1]) [1..rows - 1])"

definition meshes :: "scene \<Rightarrow> mesh list" where
  "meshes scene = concat (map (\<lambda>obj. case obj of Mesh m \<Rightarrow> [m] | _ \<Rightarrow> []) scene)"

definition mean :: "rat list \<Rightarrow> rat" where
  "mean xs = sum_list xs / of_nat (length xs)"

text \<open>
  The visited cells that more than one statement of the override chain tests for.
\<close>

definition multiplyTargeted :: "(int \<times> int) list" where
  "multiplyTargeted =
     filter (\<lambda>(row, col). 1 < length (entriesFor row col)) (gridCoords BOX_COL BOX_ROW)"

text \<open>
  The offsets as the specification words them, \<open>-(COLS-1)*S/2\<close> and \<open>-(ROWS-1)*S/2\<close>, for
  comparison with \<open>offsetX\<close> and \<open>offsetY\<close> above.
\<close>

definition spec_offsetX :: "int \<Rightarrow> rat \<Rightarrow> rat" where
  "spec_offsetX cols cellSize = - (of_int cols - 1) * cellSize / 2"

definition spec_offsetY :: "int \<Rightarrow> rat \<Rightarrow> rat" where
  "spec_offsetY rows cellSize = - (of_int rows - 1) * cellSize / 2"

subsection \<open>Numbers\<close>









subsection \<open>Renderer, camera and the resize listener\<close>









section \<open>Auxiliary facts\<close>

lemmas overrides_defs =
  overrides_000000_def overrides_69889d_def overrides_6eb2dd_def overrides_424040_def
  overrides_5c6060_def overrides_ffffff_def overrides_ff5552_def

declare colLoop.simps [simp del] rowLoop.simps [simp del]

subsection \<open>The loops as a map over the visited cells\<close>

lemma colLoop_eq:
  "colLoop box_row box_col box_size row col scene =
     scene @ map (\<lambda>c. Mesh (makeBox box_row box_col box_size row c)) [col..box_row - 1]"
proof (induction box_row box_col box_size row col scene rule: colLoop.induct)
  case (1 box_row box_col box_size row col scene)
  show ?case
  proof (cases "col < box_row")
    case True
    then have "[col..box_row - 1] = col # [col + 1..box_row - 1]"
      by (simp add: upto_rec1)
    with True 1 show ?thesis
      by (subst colLoop.simps) simp
  next
    case False
    then show ?thesis by (subst colLoop.simps) simp
  qed
qed

lemma rowLoop_eq:
  "rowLoop box_row box_col box_size row scene =
     scene @ concat (map (\<lambda>r. map (\<lambda>c. Mesh (makeBox box_row box_col box_size r c))
                                  [1..box_row - 1])
                      [row..box_col - 1])"
proof (induction box_row box_col box_size row scene rule: rowLoop.induct)
  case (1 box_row box_col box_size row scene)
  show ?case
  proof (cases "row < box_col")
    case True
    then have "[row..box_col - 1] = row # [row + 1..box_col - 1]"
      by (simp add: upto_rec1)
    with True 1 show ?thesis
      by (subst rowLoop.simps) (simp add: colLoop_eq)
  next
    case False
    then show ?thesis by (subst rowLoop.simps) simp
  qed
qed

lemma buildGrid_eq:
  "buildGrid rows cols cellSize scene =
     scene @ map (\<lambda>(row, col). Mesh (makeBox cols rows cellSize row col)) (gridCoords rows cols)"
  by (simp add: buildGrid_def rowLoop_eq gridCoords_def map_concat comp_def)

lemma length_gridCoords:
  "length (gridCoords rows cols) = nat (rows - 1) * nat (cols - 1)"
  by (simp add: gridCoords_def length_concat comp_def sum_list_triv)

lemma distinct_pairs:
  "distinct xs \<Longrightarrow> distinct ys \<Longrightarrow>
   distinct (concat (map (\<lambda>x. map (\<lambda>y. (x, y)) ys) xs))"
proof (induction xs)
  case Nil
  show ?case by simp
next
  case (Cons x xs)
  then show ?case by (auto simp: distinct_map inj_on_def)
qed

lemma distinct_gridCoords: "distinct (gridCoords rows cols)"
  unfolding gridCoords_def by (rule distinct_pairs) simp_all

lemma set_gridCoords:
  "set (gridCoords rows cols) = {1..rows - 1} \<times> {1..cols - 1}"
  by (auto simp: gridCoords_def)

subsection \<open>The override chain as a fold\<close>

lemma applyOverrides_append:
  "applyOverrides (xs @ ys) row col base =
     applyOverrides ys row col (applyOverrides xs row col base)"
  by (simp add: applyOverrides_def)

lemma applyOverrides_Cons_match:
  "applyOverrides ((col, row, colour) # tab) row col base = applyOverrides tab row col colour"
  by (simp add: applyOverrides_def applyOverride_def)

lemma applyOverrides_no_match:
  "\<forall>e \<in> set tab. \<not> (fst e = col \<and> fst (snd e) = row) \<Longrightarrow>
   applyOverrides tab row col base = base"
proof (induction tab arbitrary: base)
  case Nil
  show ?case by (simp add: applyOverrides_def)
next
  case (Cons e tab)
  obtain c r colour where e: "e = (c, r, colour)" by (cases e)
  with Cons.prems have "\<not> (col = c \<and> row = r)" by auto
  then have "applyOverrides (e # tab) row col base = applyOverrides tab row col base"
    by (auto simp: e applyOverrides_def applyOverride_def)
  with Cons show ?case by simp
qed

lemma applyOverrides_in:
  "applyOverrides tab row col base \<in> insert base (set (map (\<lambda>e. snd (snd e)) tab))"
proof (induction tab arbitrary: base)
  case Nil
  show ?case by (simp add: applyOverrides_def)
next
  case (Cons e tab)
  obtain c r colour where e: "e = (c, r, colour)" by (cases e)
  have "applyOverrides (e # tab) row col base =
        applyOverrides tab row col (applyOverride row col e base)"
    by (simp add: applyOverrides_def)
  moreover have "applyOverride row col e base \<in> {base, colour}"
    by (simp add: e applyOverride_def)
  ultimately show ?case using Cons.IH [of "applyOverride row col e base"]
    by (auto simp: e)
qed

subsection \<open>Facts about the table of the source\<close>

lemma override_colours:
  "set (map (\<lambda>e. snd (snd e)) colorOverrides) =
     {0x000000, 0x69889d, 0x6eb2dd, 0x424040, 0x5c6060, 0xffffff, 0xff5552}"
  by (simp add: colorOverrides_def overrides_defs insert_commute)

lemma distinct_override_targets:
  "distinct (map (\<lambda>e. (fst e, fst (snd e))) colorOverrides)"
  by (simp add: colorOverrides_def overrides_defs)

lemma override_targets_visited:
  "list_all (\<lambda>e. 1 \<le> fst (snd e) \<and> fst (snd e) < BOX_COL \<and> 1 \<le> fst e \<and> fst e < BOX_ROW)
     colorOverrides"
  by (simp add: colorOverrides_def overrides_defs BOX_COL_def BOX_ROW_def)

lemma length_filter_distinct_key:
  "distinct (map key tab) \<Longrightarrow> length (filter (\<lambda>e. key e = k) tab) \<le> 1"
proof (induction tab)
  case Nil
  show ?case by simp
next
  case (Cons e tab)
  show ?case
  proof (cases "key e = k")
    case True
    from Cons.prems have "key e \<notin> key ` set tab" by simp
    with True have "\<forall>x \<in> set tab. key x \<noteq> k" by blast
    then have "filter (\<lambda>e. key e = k) tab = []"
      by (simp add: filter_empty_conv)
    with True show ?thesis by simp
  next
    case False
    with Cons show ?thesis by simp
  qed
qed

lemma length_entriesFor: "length (entriesFor row col) \<le> 1"
proof -
  have "entriesFor row col =
        filter (\<lambda>e. (fst e, fst (snd e)) = (col, row)) colorOverrides"
    by (auto simp: entriesFor_def intro!: filter_cong)
  then show ?thesis
    using length_filter_distinct_key [OF distinct_override_targets, of "(col, row)"] by simp
qed

lemma resolveColor_entry:
  assumes "(col, row, colour) \<in> set colorOverrides"
  shows "resolveColor row col = colour"
proof -
  from assms obtain xs zs where split: "colorOverrides = xs @ (col, row, colour) # zs"
    by (auto simp: in_set_conv_decomp)
  have "distinct (map (\<lambda>e. (fst e, fst (snd e))) (xs @ (col, row, colour) # zs))"
    using distinct_override_targets by (simp only: split)
  then have "\<forall>e \<in> set zs. \<not> (fst e = col \<and> fst (snd e) = row)"
    by force
  then show ?thesis
    by (simp add: resolveColor_def split applyOverrides_append applyOverrides_Cons_match
        applyOverrides_no_match)
qed

subsection \<open>The meshes of the scene\<close>

lemma meshes_append: "meshes (xs @ ys) = meshes xs @ meshes ys"
  by (simp add: meshes_def)

lemma meshes_map_Mesh: "meshes (map (\<lambda>x. Mesh (f x)) xs) = map f xs"
  by (induction xs) (simp_all add: meshes_def)

lemma meshes_buildGrid:
  "meshes (buildGrid rows cols cellSize scene) =
     meshes scene @ map (\<lambda>(row, col). makeBox cols rows cellSize row col) (gridCoords rows cols)"
proof -
  have "(\<lambda>(row, col). Mesh (makeBox cols rows cellSize row col)) =
        (\<lambda>x. Mesh ((\<lambda>(row, col). makeBox cols rows cellSize row col) x))"
    by (simp add: fun_eq_iff)
  then show ?thesis
    by (simp only: buildGrid_eq meshes_append meshes_map_Mesh)
qed

lemma meshes_init_scene:
  "meshes init_scene =
     map (\<lambda>(row, col). makeBox BOX_ROW BOX_COL BOX_SIZE row col) (gridCoords BOX_COL BOX_ROW)"
  by (simp add: init_scene_def meshes_buildGrid) (simp add: meshes_def)

lemma xs_init_scene:
  "map pos_x (meshes init_scene) =
     concat (map (\<lambda>row. map (\<lambda>col. of_int col - 25 / 2) [1..24]) [1..19])"
  by (simp add: meshes_init_scene gridCoords_def map_concat comp_def makeBox_def offsetX_def
      gridWidth_def BOX_ROW_def BOX_COL_def BOX_SIZE_def)

lemma ys_init_scene:
  "map pos_y (meshes init_scene) =
     concat (map (\<lambda>row. map (\<lambda>col. - of_int row + 10) [1..24]) [1..19])"
  by (simp add: meshes_init_scene gridCoords_def map_concat comp_def makeBox_def offsetY_def
      gridHeight_def BOX_ROW_def BOX_COL_def BOX_SIZE_def)

subsection \<open>The double-precision quotient\<close>



















section \<open>Properties\<close>

subsection \<open>Colour resolution\<close>

text \<open>
  C1: when a table holds an entry for a cell with colour \<open>A\<close> and, later, an entry for the
  same cell with colour \<open>B\<close>, and no entry after that one tests for the cell, the chain run
  over the table from any base colour ends with \<open>B\<close>: the entries are applied in the order
  of their declaration and the last matching one decides.
\<close>

theorem last_declared_entry_wins:
  assumes "\<forall>e \<in> set zs. \<not> (fst e = col \<and> fst (snd e) = row)"
  shows "applyOverrides (xs @ (col, row, A) # ys @ (col, row, B) # zs) row col base = B"
  using assms
  by (simp add: applyOverrides_append applyOverrides_Cons_match applyOverrides_no_match)

text \<open>
  C1, at a table of five entries of which the second and the fourth test for row 1,
  column 5.
\<close>

theorem last_declared_entry_wins_witness:
  "applyOverrides
     ([(4, 2, 0x424040)] @ (5, 1, 0x000000) # [(6, 2, 0x69889d)] @ (5, 1, 0xff5552) #
        [(2, 3, 0x5c6060)])
     1 5 0xffffff = 0xff5552"
proof -
  have later: "\<forall>e \<in> set [(2, 3, 0x5c6060 :: nat)]. \<not> (fst e = (5::int) \<and> fst (snd e) = (1::int))"
    by simp
  show ?thesis
    by (rule last_declared_entry_wins [OF later])
qed

text \<open>
  C5, as stated, fails: the list of the visited cells for which more than one statement of
  the chain tests is empty, so no cell is targeted from two colour blocks.
\<close>

theorem no_cell_targeted_twice: "multiplyTargeted = []"
proof -
  have "\<not> 1 < length (entriesFor row col)" for row col
    using length_entriesFor [of row col] by simp
  then show ?thesis
    by (simp add: multiplyTargeted_def filter_empty_conv split_beta)
qed

text \<open>
  C5, amended: every cell is tested for by at most one statement of the chain, and every
  entry of the chain targets a visited cell and gives that cell its resolved colour; no
  entry is superseded by a later one.
\<close>

theorem every_override_entry_authoritative:
  "length (entriesFor row col) \<le> 1 \<and>
   ((col, row, colour) \<in> set colorOverrides \<longrightarrow>
      (row, col) \<in> set (gridCoords BOX_COL BOX_ROW) \<and> resolveColor row col = colour)"
proof -
  have "(row, col) \<in> set (gridCoords BOX_COL BOX_ROW)"
    if "(col, row, colour) \<in> set colorOverrides"
    using that override_targets_visited by (force simp: list_all_iff set_gridCoords)
  then show ?thesis
    using length_entriesFor [of row col] resolveColor_entry [of col row colour] by blast
qed

text \<open>C5, amended, at the entry \<open>col === 13 && row === 2\<close> of the third block.\<close>

theorem every_override_entry_authoritative_witness:
  "length (entriesFor 2 13) \<le> 1 \<and> (13, 2, 0x6eb2dd) \<in> set colorOverrides \<and>
   (2, 13) \<in> set (gridCoords BOX_COL BOX_ROW) \<and> resolveColor 2 13 = 0x6eb2dd"
proof -
  have "(13, 2, 0x6eb2dd) \<in> set colorOverrides"
    by (simp add: colorOverrides_def overrides_defs)
  then show ?thesis
    using every_override_entry_authoritative [of 2 13 "0x6eb2dd"] by simp
qed

text \<open>
  C6: row 1, column 5 is a visited cell, its colour resolves to black (\<open>0x000000\<close>) and not
  to the base colour, and the cube built there carries that colour.
\<close>

theorem resolveColor_row1_col5_black:
  "resolveColor 1 5 = 0x000000 \<and> resolveColor 1 5 \<noteq> MATERIAL_PARAM_color \<and>
   (1, 5) \<in> set (gridCoords BOX_COL BOX_ROW) \<and>
   color (makeBox BOX_ROW BOX_COL BOX_SIZE 1 5) = 0x000000"
proof -
  have "resolveColor 1 5 = 0x000000"
    by (simp add: resolveColor_def applyOverrides_def applyOverride_def colorOverrides_def
        overrides_defs MATERIAL_PARAM_color_def)
  then show ?thesis
    by (simp add: makeBox_def set_gridCoords MATERIAL_PARAM_color_def BOX_COL_def BOX_ROW_def)
qed

text \<open>
  C7: no statement of the chain tests for row 1, column 1, and the cube there keeps the
  base colour \<open>0xffffff\<close> of \<open>MATERIAL_PARAM\<close>.
\<close>

theorem resolveColor_row1_col1_base:
  "resolveColor 1 1 = 0xffffff \<and> resolveColor 1 1 = MATERIAL_PARAM_color \<and>
   entriesFor 1 1 = []"
  by (simp add: resolveColor_def applyOverrides_def applyOverride_def entriesFor_def
      colorOverrides_def overrides_defs MATERIAL_PARAM_color_def)

text \<open>
  C10: the colours resolved over the visited cells are exactly the seven values
  \<open>0xffffff\<close>, \<open>0x000000\<close>, \<open>0x69889d\<close>, \<open>0x6eb2dd\<close>, \<open>0x424040\<close>, \<open>0x5c6060\<close> and
  \<open>0xff5552\<close>.
\<close>

theorem resolved_colours:
  "(\<lambda>(row, col). resolveColor row col) ` set (gridCoords BOX_COL BOX_ROW) =
     {0xffffff, 0x000000, 0x69889d, 0x6eb2dd, 0x424040, 0x5c6060, 0xff5552}"
proof
  show "(\<lambda>(row, col). resolveColor row col) ` set (gridCoords BOX_COL BOX_ROW)
        \<subseteq> {0xffffff, 0x000000, 0x69889d, 0x6eb2dd, 0x424040, 0x5c6060, 0xff5552}"
  proof
    fix x
    assume "x \<in> (\<lambda>(row, col). resolveColor row col) ` set (gridCoords BOX_COL BOX_ROW)"
    then obtain row col where "x = resolveColor row col" by auto
    then have "x \<in> insert MATERIAL_PARAM_color (set (map (\<lambda>e. snd (snd e)) colorOverrides))"
      unfolding resolveColor_def using applyOverrides_in by simp
    then show "x \<in> {0xffffff, 0x000000, 0x69889d, 0x6eb2dd, 0x424040, 0x5c6060, 0xff5552}"
      unfolding override_colours by (auto simp: MATERIAL_PARAM_color_def)
  qed
next
  have visited: "(r, c) \<in> set (gridCoords BOX_COL BOX_ROW)"
    if "1 \<le> r" "r \<le> 19" "1 \<le> c" "c \<le> 24" for r c
    using that by (simp add: set_gridCoords BOX_COL_def BOX_ROW_def)
  have member: "(c, r, colour) \<in> set colorOverrides \<Longrightarrow> 1 \<le> r \<Longrightarrow> r \<le> 19 \<Longrightarrow>
      1 \<le> c \<Longrightarrow> c \<le> 24 \<Longrightarrow>
      colour \<in> (\<lambda>(row, col). resolveColor row col) ` set (gridCoords BOX_COL BOX_ROW)"
    for c r colour
    using resolveColor_entry [of c r colour] visited [of r c] by force
  have white: "resolveColor 1 1 = 0xffffff"
    by (simp add: resolveColor_def applyOverrides_def applyOverride_def colorOverrides_def
        overrides_defs MATERIAL_PARAM_color_def)
  have "0xffffff \<in> (\<lambda>(row, col). resolveColor row col) ` set (gridCoords BOX_COL BOX_ROW)"
    using white visited [of 1 1] by force
  moreover
  have "0x000000 \<in> (\<lambda>(row, col). resolveColor row col) ` set (gridCoords BOX_COL BOX_ROW)"
    by (rule member [of 5 1]) (simp_all add: colorOverrides_def overrides_defs)
  moreover
  have "0x69889d \<in> (\<lambda>(row, col). resolveColor row col) ` set (gridCoords BOX_COL BOX_ROW)"
    by (rule member [of 5 2]) (simp_all add: colorOverrides_def overrides_defs)
  moreover
  have "0x6eb2dd \<in> (\<lambda>(row, col). resolveColor row col) ` set (gridCoords BOX_COL BOX_ROW)"
    by (rule member [of 13 2]) (simp_all add: colorOverrides_def overrides_defs)
  moreover
  have "0x424040 \<in> (\<lambda>(row, col). resolveColor row col) ` set (gridCoords BOX_COL BOX_ROW)"
    by (rule member [of 5 5]) (simp_all add: colorOverrides_def overrides_defs)
  moreover
  have "0x5c6060 \<in> (\<lambda>(row, col). resolveColor row col) ` set (gridCoords BOX_COL BOX_ROW)"
    by (rule member [of 13 7]) (simp_all add: colorOverrides_def overrides_defs)
  moreover
  have "0xff5552 \<in> (\<lambda>(row, col). resolveColor row col) ` set (gridCoords BOX_COL BOX_ROW)"
    by (rule member [of 11 14]) (simp_all add: colorOverrides_def overrides_defs)
  ultimately show "{0xffffff, 0x000000, 0x69889d, 0x6eb2dd, 0x424040, 0x5c6060, 0xff5552}
        \<subseteq> (\<lambda>(row, col). resolveColor row col) ` set (gridCoords BOX_COL BOX_ROW)"
    by simp
qed

subsection \<open>The grid\<close>

text \<open>
  C2: for \<open>R \<ge> 1\<close> and \<open>C \<ge> 1\<close> the builder appends one mesh per visited cell, the visited
  cells are pairwise distinct and there are \<open>(R-1)*(C-1)\<close> of them; with the constants of
  the source that is \<open>19 * 24 = 456\<close> meshes.
\<close>

theorem buildGrid_cell_count:
  "(1 \<le> R \<and> 1 \<le> C \<longrightarrow>
      buildGrid R C S scene =
        scene @ map (\<lambda>(row, col). Mesh (makeBox C R S row col)) (gridCoords R C) \<and>
      int (length (gridCoords R C)) = (R - 1) * (C - 1) \<and>
      distinct (gridCoords R C)) \<and>
   length (gridCoords BOX_COL BOX_ROW) = 19 * 24 \<and>
   length (buildGrid BOX_COL BOX_ROW BOX_SIZE scene) = length scene + 456"
proof -
  have "int (length (gridCoords R C)) = (R - 1) * (C - 1)" if "1 \<le> R" "1 \<le> C"
    using that by (simp add: length_gridCoords)
  moreover have "length (gridCoords BOX_COL BOX_ROW) = 19 * 24"
    by (simp add: length_gridCoords BOX_COL_def BOX_ROW_def)
  ultimately show ?thesis
    by (simp add: buildGrid_eq [symmetric] distinct_gridCoords)
      (simp add: buildGrid_eq)
qed

text \<open>C2, at three rows and four columns: six cells, from an empty scene.\<close>

theorem buildGrid_cell_count_witness:
  "(1::int) \<le> 3 \<and> (1::int) \<le> 4 \<and>
   buildGrid 3 4 1 [] = map (\<lambda>(row, col). Mesh (makeBox 4 3 1 row col)) (gridCoords 3 4) \<and>
   gridCoords 3 4 = [(1, 1), (1, 2), (1, 3), (2, 1), (2, 2), (2, 3)] \<and>
   int (length (gridCoords 3 4)) = (3 - 1) * (4 - 1) \<and> distinct (gridCoords 3 4)"
  using buildGrid_cell_count [of 3 4 1 "[]"]
  by (simp add: gridCoords_def upto_rec1)

text \<open>
  C3, as stated, fails at the first visited cell with the constants of the source: the cube
  of row 1, column 1 is placed at \<open>x = -23/2\<close>, \<open>y = 9\<close>, where the offsets
  \<open>-(COLS-1)*S/2\<close> and \<open>-(ROWS-1)*S/2\<close> would give \<open>x = -11\<close>, \<open>y = 17/2\<close>.
\<close>

theorem spec_offset_counterexample:
  "pos_x (makeBox BOX_ROW BOX_COL BOX_SIZE 1 1) = - 23 / 2 \<and>
   pos_x (makeBox BOX_ROW BOX_COL BOX_SIZE 1 1) \<noteq>
     of_int 1 * BOX_SIZE + spec_offsetX BOX_ROW BOX_SIZE \<and>
   pos_y (makeBox BOX_ROW BOX_COL BOX_SIZE 1 1) = 9 \<and>
   pos_y (makeBox BOX_ROW BOX_COL BOX_SIZE 1 1) \<noteq>
     - of_int 1 * BOX_SIZE - spec_offsetY BOX_COL BOX_SIZE"
  by (simp add: makeBox_def offsetX_def offsetY_def gridWidth_def gridHeight_def
      spec_offsetX_def spec_offsetY_def BOX_ROW_def BOX_COL_def BOX_SIZE_def)

text \<open>
  C3, amended: the cube of every visited cell \<open>(row, col)\<close> is placed at
  \<open>x = col*S + offsetX\<close>, \<open>y = -row*S - offsetY\<close>, \<open>z = 0\<close> with \<open>offsetX = -COLS*S/2\<close> and
  \<open>offsetY = -ROWS*S/2\<close>, where \<open>ROWS\<close> bounds the row loop and \<open>COLS\<close> the column loop.
\<close>

theorem cell_world_position:
  "buildGrid ROWS COLS S scene =
     scene @ map (\<lambda>(row, col). Mesh \<lparr> color = resolveColor row col,
                                     pos_x = of_int col * S + - (of_int COLS * S) / 2,
                                     pos_y = - of_int row * S - - (of_int ROWS * S) / 2,
                                     pos_z = 0 \<rparr>)
                 (gridCoords ROWS COLS)"
  by (simp add: buildGrid_eq makeBox_def offsetX_def offsetY_def gridWidth_def gridHeight_def)

text \<open>
  C4: the scene of \<open>init\<close> holds 456 meshes, and the mean of their \<open>x\<close> positions and the
  mean of their \<open>y\<close> positions are both exactly 0.
\<close>

theorem grid_centred:
  "length (meshes init_scene) = 456 \<and>
   mean (map pos_x (meshes init_scene)) = 0 \<and>
   mean (map pos_y (meshes init_scene)) = 0"
proof -
  have "length (meshes init_scene) = 456"
    by (simp add: meshes_init_scene length_gridCoords BOX_ROW_def BOX_COL_def)
  moreover have "sum_list (map pos_x (meshes init_scene)) = 0"
    unfolding xs_init_scene by (simp add: upto_rec1)
  moreover have "sum_list (map pos_y (meshes init_scene)) = 0"
    unfolding ys_init_scene by (simp add: upto_rec1)
  ultimately show ?thesis by (simp add: mean_def)
qed

subsection \<open>Resizing\<close>




end
